theory Spec2Isabelle
  imports Main
begin

section \<open>Data model (types/index.ts)\<close>

text \<open>
  The TypeScript string-literal unions become datatypes, the interfaces records.
  A field whose name clashes with a HOL constant or with a field of another record
  carries a suffix naming its record. An optional field (\<open>x?: T\<close>) and a nullable
  one (\<open>T | null\<close>) are options. Timestamps (\<open>Date.now()\<close>, and the ISO strings
  made from \<open>new Date()\<close>) are the clock reading in milliseconds, an \<open>int\<close>;
  the elapsed time is a whole number of seconds, an \<open>int\<close>.
\<close>

datatype UserRole = Housekeeping | Supervisor | Engineering | Manager

datatype RoomStatus =
    Dirty
  | Check_out_Inspected
  | Cleaning
  | Vacant_Clean
  | Vacant_Clean_Inspected
  | Occupied
  | Out_of_Order

datatype TaskType = Cleaning_task | Inspection_task | Repair_task | Maintenance_task

datatype WorkLogStatus = In_Progress | Paused | Completed

datatype NotificationType = info | success | warning | error

type_synonym timestamp = int

record Room =
  id_room :: string
  room_number :: string
  building :: string
  floor_room :: int
  status :: RoomStatus
  room_type :: string
  last_updated :: timestamp
  assigned_to :: "string option"
  current_task :: "string option"
  notes_room :: "string option"
  is_vip :: "bool option"
  guest_name :: "string option"

record Profile =
  id_profile :: string
  full_name :: string
  role :: UserRole
  email :: "string option"
  avatar_url :: "string option"
  created_at :: "string option"

record WorkLog =
  id_work :: string
  room_number_work :: string
  staff_id :: string
  task_type :: TaskType
  start_time :: timestamp
  pause_time :: "timestamp option"
  end_time :: "timestamp option"
  total_duration :: "int option"
  description :: "string option"
  status_work :: WorkLogStatus

record AuditLog =
  room_number_audit :: string
  changed_by :: string
  changer_name :: "string option"
  changer_role :: "UserRole option"
  from_status :: RoomStatus
  to_status :: RoomStatus
  timestamp_audit :: timestamp
  notes_audit :: "string option"

record TimerState =
  isRunning :: bool
  startTime :: "timestamp option"
  elapsedTime :: int
  currentLogId :: "string option"
  roomNumber :: "string option"
  taskType :: "TaskType option"

text \<open>
  A notification as the store keeps it. Its \<open>id\<close> is drawn from \<open>Math.random\<close>;
  it identifies the entry for \<open>markNotificationRead\<close> only and is left out here.
\<close>

record Notification =
  title :: string
  message :: string
  type_notification :: NotificationType
  timestamp_notification :: timestamp
  read_notification :: bool

text \<open>The literal each union member is at run time; template strings print it.\<close>

fun statusName :: "RoomStatus \<Rightarrow> string" where
  "statusName Dirty = ''Dirty''"
| "statusName Check_out_Inspected = ''Check-out Inspected''"
| "statusName Cleaning = ''Cleaning''"
| "statusName Vacant_Clean = ''Vacant Clean''"
| "statusName Vacant_Clean_Inspected = ''Vacant Clean Inspected''"
| "statusName Occupied = ''Occupied''"
| "statusName Out_of_Order = ''Out of Order''"

fun taskTypeName :: "TaskType \<Rightarrow> string" where
  "taskTypeName Cleaning_task = ''Cleaning''"
| "taskTypeName Inspection_task = ''Inspection''"
| "taskTypeName Repair_task = ''Repair''"
| "taskTypeName Maintenance_task = ''Maintenance''"

text \<open>\<open>${timer.taskType}\<close> in a template string: \<open>null\<close> prints as the word.\<close>

fun taskTypeText :: "TaskType option \<Rightarrow> string" where
  "taskTypeText None = ''null''"
| "taskTypeText (Some t) = taskTypeName t"

text \<open>
  JavaScript truthiness of the values the code tests with \<open>!x\<close> or \<open>if (x)\<close>:
  a string is falsy when absent or empty, a number when absent or zero.
\<close>

fun truthy_string :: "string option \<Rightarrow> bool" where
  "truthy_string None = False"
| "truthy_string (Some s) = (s \<noteq> [])"


section \<open>The status workflow table (components/3d/Dashboard3D.tsx)\<close>

text \<open>
  \<open>statusWorkflow\<close> is an object literal with seven own keys; the room modal reads it
  with \<open>statusWorkflow[room.status] || []\<close>. The object is an association list keyed
  by the run-time string, so that a key outside the seven can be looked up too.
\<close>

definition statusWorkflow :: "(string \<times> RoomStatus list) list" where
  "statusWorkflow =
    [(''Dirty'', [Check_out_Inspected, Cleaning, Out_of_Order]),
     (''Check-out Inspected'', [Cleaning, Out_of_Order]),
     (''Cleaning'', [Vacant_Clean, Dirty]),
     (''Vacant Clean'', [Vacant_Clean_Inspected, Dirty, Occupied]),
     (''Vacant Clean Inspected'', [Occupied, Dirty]),
     (''Occupied'', [Dirty, Out_of_Order]),
     (''Out of Order'', [Dirty])]"

text \<open>
  An object literal inherits from \<open>Object.prototype\<close>, so reading a property finds
  the object's own key first and, failing that, a member of the prototype. These
  are the property names of \<open>Object.prototype\<close> in ECMAScript (with its Annex B);
  the members are functions, and \<open>__proto__\<close> reads as the prototype object.
\<close>

definition objectPrototypeKeys :: "string list" where
  "objectPrototypeKeys =
    [''constructor'', ''hasOwnProperty'', ''isPrototypeOf'', ''propertyIsEnumerable'',
     ''toLocaleString'', ''toString'', ''valueOf'', ''__proto__'',
     ''__defineGetter__'', ''__defineSetter__'', ''__lookupGetter__'', ''__lookupSetter__'']"

text \<open>
  What reading a property of \<open>statusWorkflow\<close> can yield: nothing, one of the
  arrays of the literal, or the inherited member of that name.
\<close>

datatype js_value = JS_undefined | JS_array "RoomStatus list" | JS_inherited string

definition statusWorkflow_read :: "string \<Rightarrow> js_value" where
  "statusWorkflow_read key =
    (case map_of statusWorkflow key of
       Some xs \<Rightarrow> JS_array xs
     | None \<Rightarrow> if key \<in> set objectPrototypeKeys then JS_inherited key else JS_undefined)"

text \<open>
  \<open>statusWorkflow[room.status] || []\<close>: \<open>undefined\<close> is falsy and gives the empty
  array; an array (even an empty one), a function and an object are truthy and
  are kept.
\<close>

definition availableStatuses :: "string \<Rightarrow> js_value" where
  "availableStatuses key =
    (case statusWorkflow_read key of JS_undefined \<Rightarrow> JS_array [] | v \<Rightarrow> v)"

text \<open>
  The spec's \<open>legalNextStates\<close>: the statuses in the array the table holds for a
  room's status.
\<close>

definition legalNextStates :: "RoomStatus \<Rightarrow> RoomStatus set" where
  "legalNextStates s =
    (case availableStatuses (statusName s) of JS_array xs \<Rightarrow> set xs | _ \<Rightarrow> {})"

section \<open>The application store (store/appStore.ts)\<close>

text \<open>
  The fields of the zustand store that the workflow reads or writes. Each action
  \<open>set(...)\<close> is a function from the store's state to its next state; an action
  that reads the clock takes the reading as its first argument.
\<close>

record AppState =
  currentUser :: "Profile option"
  rooms :: "Room list"
  timer :: TimerState
  notifications :: "Notification list"

text \<open>
  \<open>updateRoom(roomId, updates)\<close> merges \<open>updates\<close> into every room with that id
  (\<open>{ ...r, ...updates }\<close>); the merge is the function \<open>updates\<close>.
\<close>

definition updateRoom :: "string \<Rightarrow> (Room \<Rightarrow> Room) \<Rightarrow> AppState \<Rightarrow> AppState" where
  "updateRoom roomId updates state =
    state\<lparr>rooms := map (\<lambda>r. if id_room r = roomId then updates r else r) (rooms state)\<rparr>"

definition initialTimer :: TimerState where
  "initialTimer =
    \<lparr>isRunning = False, startTime = None, elapsedTime = 0,
     currentLogId = None, roomNumber = None, taskType = None\<rparr>"

definition startTimer :: "timestamp \<Rightarrow> string \<Rightarrow> string \<Rightarrow> TaskType \<Rightarrow> AppState \<Rightarrow> AppState" where
  "startTimer clock logId roomNo tt state =
    state\<lparr>timer :=
      \<lparr>isRunning = True, startTime = Some clock, elapsedTime = 0,
       currentLogId = Some logId, roomNumber = Some roomNo, taskType = Some tt\<rparr>\<rparr>"

definition pauseTimer :: "AppState \<Rightarrow> AppState" where
  "pauseTimer state = state\<lparr>timer := (timer state)\<lparr>isRunning := False, startTime := None\<rparr>\<rparr>"

definition resumeTimer :: "timestamp \<Rightarrow> AppState \<Rightarrow> AppState" where
  "resumeTimer clock state =
    state\<lparr>timer := (timer state)\<lparr>isRunning := True, startTime := Some clock\<rparr>\<rparr>"

definition stopTimer :: "AppState \<Rightarrow> AppState" where
  "stopTimer state =
    state\<lparr>timer := (timer state)
      \<lparr>isRunning := False, startTime := None,
       currentLogId := None, roomNumber := None, taskType := None\<rparr>\<rparr>"

definition resetTimer :: "AppState \<Rightarrow> AppState" where
  "resetTimer state = state\<lparr>timer := initialTimer\<rparr>"


text \<open>
  \<open>addNotification\<close> puts the new entry, stamped and unread, in front and keeps the
  first fifty.
\<close>

definition addNotification ::
  "timestamp \<Rightarrow> string \<Rightarrow> string \<Rightarrow> NotificationType \<Rightarrow> AppState \<Rightarrow> AppState" where
  "addNotification clock ttl msg ty state =
    state\<lparr>notifications :=
      take 50 (\<lparr>title = ttl, message = msg, type_notification = ty,
                timestamp_notification = clock, read_notification = False\<rparr>
               # notifications state)\<rparr>"



section \<open>The repository (lib/supabase.ts)\<close>

text \<open>
  The remote tables the workflow writes. Every helper awaits one request and throws
  the error the request reports; a thrown error is the left injection, carrying
  its message. What a request does in a given call (fail with a message, or the id
  the database gives a new work log) and what the clock reads are inputs of the
  call, collected in \<open>Env\<close>; one reading of the clock serves a whole call.
\<close>

record Database =
  rooms_table :: "Room list"
  audit_logs :: "AuditLog list"
  work_logs :: "WorkLog list"

record Env =
  now :: timestamp
  updateRoomStatus_error :: "string option"
  createAuditLog_error :: "string option"
  createWorkLog_result :: "string + string"
  pauseWorkLog_error :: "string option"
  resumeWorkLog_error :: "string option"
  finishWorkLog_error :: "string option"

definition updateRoomStatus ::
  "Env \<Rightarrow> string \<Rightarrow> RoomStatus \<Rightarrow> string option \<Rightarrow> Database \<Rightarrow> string + Database" where
  "updateRoomStatus env roomId st assignedTo d =
    (case updateRoomStatus_error env of
       Some msg \<Rightarrow> Inl msg
     | None \<Rightarrow>
         Inr (d\<lparr>rooms_table :=
           map (\<lambda>r. if id_room r = roomId
                     then r\<lparr>status := st, last_updated := now env,
                            assigned_to :=
                              (if truthy_string assignedTo then assignedTo else assigned_to r)\<rparr>
                     else r)
               (rooms_table d)\<rparr>))"

definition createAuditLog :: "Env \<Rightarrow> AuditLog \<Rightarrow> Database \<Rightarrow> string + Database" where
  "createAuditLog env entry d =
    (case createAuditLog_error env of
       Some msg \<Rightarrow> Inl msg
     | None \<Rightarrow> Inr (d\<lparr>audit_logs := audit_logs d @ [entry]\<rparr>))"

definition createWorkLog ::
  "Env \<Rightarrow> string \<Rightarrow> string \<Rightarrow> TaskType \<Rightarrow> string option \<Rightarrow> Database
    \<Rightarrow> string + (string \<times> Database)" where
  "createWorkLog env roomNo staffId tt descr d =
    (case createWorkLog_result env of
       Inl msg \<Rightarrow> Inl msg
     | Inr newId \<Rightarrow>
         Inr (newId,
              d\<lparr>work_logs := work_logs d @
                [\<lparr>id_work = newId, room_number_work = roomNo, staff_id = staffId,
                  task_type = tt, start_time = now env, pause_time = None,
                  end_time = None, total_duration = None, description = descr,
                  status_work = In_Progress\<rparr>]\<rparr>))"

definition pauseWorkLog :: "Env \<Rightarrow> string \<Rightarrow> int \<Rightarrow> Database \<Rightarrow> string + Database" where
  "pauseWorkLog env logId elapsedSeconds d =
    (case pauseWorkLog_error env of
       Some msg \<Rightarrow> Inl msg
     | None \<Rightarrow>
         Inr (d\<lparr>work_logs :=
           map (\<lambda>l. if id_work l = logId
                     then l\<lparr>pause_time := Some (now env),
                            total_duration := Some elapsedSeconds,
                            status_work := Paused\<rparr>
                     else l)
               (work_logs d)\<rparr>))"

definition resumeWorkLog :: "Env \<Rightarrow> string \<Rightarrow> Database \<Rightarrow> string + Database" where
  "resumeWorkLog env logId d =
    (case resumeWorkLog_error env of
       Some msg \<Rightarrow> Inl msg
     | None \<Rightarrow>
         Inr (d\<lparr>work_logs :=
           map (\<lambda>l. if id_work l = logId
                     then l\<lparr>pause_time := None, status_work := In_Progress\<rparr>
                     else l)
               (work_logs d)\<rparr>))"

definition finishWorkLog :: "Env \<Rightarrow> string \<Rightarrow> int \<Rightarrow> Database \<Rightarrow> string + Database" where
  "finishWorkLog env logId totalSeconds d =
    (case finishWorkLog_error env of
       Some msg \<Rightarrow> Inl msg
     | None \<Rightarrow>
         Inr (d\<lparr>work_logs :=
           map (\<lambda>l. if id_work l = logId
                     then l\<lparr>end_time := Some (now env),
                            total_duration := Some totalSeconds,
                            status_work := Completed\<rparr>
                     else l)
               (work_logs d)\<rparr>))"

section \<open>The workflow hook (hooks/useRooms.ts)\<close>

subsection \<open>formatDuration\<close>

text \<open>
  \<open>Number.prototype.toString\<close> on a whole number, \<open>padStart(2, '0')\<close>, and the
  remainder \<open>%\<close>, which takes the sign of the dividend.
\<close>

fun natToString :: "nat \<Rightarrow> string" where
  "natToString n =
    (if n < 10 then [''0123456789'' ! n]
     else natToString (n div 10) @ [''0123456789'' ! (n mod 10)])"

declare natToString.simps [simp del]

definition numberToString :: "int \<Rightarrow> string" where
  "numberToString n = (if n < 0 then CHR ''-'' # natToString (nat (- n)) else natToString (nat n))"

definition padStart2 :: "string \<Rightarrow> string" where
  "padStart2 s = (if length s < 2 then replicate (2 - length s) CHR ''0'' @ s else s)"

definition jsRemainder :: "int \<Rightarrow> int \<Rightarrow> int" where
  "jsRemainder a b = sgn a * (\<bar>a\<bar> mod \<bar>b\<bar>)"

definition formatDuration :: "int \<Rightarrow> string" where
  "formatDuration seconds =
    (let hours = seconds div 3600;
         minutes = jsRemainder seconds 3600 div 60;
         secs = jsRemainder seconds 60
     in padStart2 (numberToString hours) @ '':'' @ padStart2 (numberToString minutes)
        @ '':'' @ padStart2 (numberToString secs))"

subsection \<open>The operations\<close>

text \<open>
  The state an operation works on: the store and the remote tables. The operations
  run one after the other.
\<close>

record World =
  app :: AppState
  db :: Database

text \<open>
  \<open>useRooms\<close> reads \<open>currentUser\<close> and \<open>timer\<close> from the store when the component
  renders and builds each operation with \<open>useCallback\<close>, so an operation is a
  function object that closes over the values of that render; the store replaces
  the timer object on every change and never mutates it. The definitions named
  \<open>_closure\<close> are these function objects, with the captured values as their first
  arguments. The store's actions (\<open>startTimer\<close>, \<open>updateRoom\<close>, ...) always work on
  the store's current state. The definitions under the plain names are the calls
  made through the function object of a render of the current store, that is,
  after the component has rendered the store's last change.
\<close>

text \<open>
  \<open>changeRoomStatus\<close>: the guard on the user; then, inside \<open>try\<close>, the remote patch,
  the audit entry, the local update and the notification, in this order; the
  \<open>catch\<close> turns a thrown error into an error notification.
\<close>

definition changeRoomStatus_closure ::
  "Profile option \<Rightarrow> Env \<Rightarrow> Room \<Rightarrow> RoomStatus \<Rightarrow> string option \<Rightarrow> World \<Rightarrow> World" where
  "changeRoomStatus_closure capturedUser env room newStatus notes w =
    (case capturedUser of
       None \<Rightarrow>
         w\<lparr>app := addNotification (now env) ''Authentication required''
                    ''Please log in to change room status'' error (app w)\<rparr>
     | Some user \<Rightarrow>
         let oldStatus = status room in
         (case updateRoomStatus env (id_room room) newStatus None (db w) of
            Inl msg \<Rightarrow>
              w\<lparr>app := addNotification (now env) ''Error updating status'' msg error (app w)\<rparr>
          | Inr d1 \<Rightarrow>
              (case createAuditLog env
                      \<lparr>room_number_audit = room_number room,
                       changed_by = id_profile user,
                       changer_name = Some (full_name user),
                       changer_role = Some (role user),
                       from_status = oldStatus,
                       to_status = newStatus,
                       timestamp_audit = now env,
                       notes_audit = notes\<rparr> d1 of
                 Inl msg \<Rightarrow>
                   w\<lparr>db := d1,
                     app := addNotification (now env) ''Error updating status'' msg error (app w)\<rparr>
               | Inr d2 \<Rightarrow>
                   w\<lparr>db := d2,
                     app := addNotification (now env) ''Status updated''
                              (''Room '' @ room_number room @ '' changed from ''
                               @ statusName oldStatus @ '' to '' @ statusName newStatus)
                              success
                              (updateRoom (id_room room)
                                 (\<lambda>r. r\<lparr>status := newStatus, last_updated := now env\<rparr>)
                                 (app w))\<rparr>)))"

definition changeRoomStatus :: "Env \<Rightarrow> Room \<Rightarrow> RoomStatus \<Rightarrow> string option \<Rightarrow> World \<Rightarrow> World" where
  "changeRoomStatus env room newStatus notes w =
    changeRoomStatus_closure (currentUser (app w)) env room newStatus notes w"

text \<open>The status \<open>startTask\<close> derives from the task type (its \<open>switch\<close>).\<close>

fun startStatus :: "Room \<Rightarrow> TaskType \<Rightarrow> RoomStatus" where
  "startStatus room Cleaning_task = Cleaning"
| "startStatus room Repair_task = Out_of_Order"
| "startStatus room Maintenance_task = Out_of_Order"
| "startStatus room Inspection_task = status room"

text \<open>
  \<open>startTask\<close> resolves to the new log's id, or to \<open>undefined\<close> (\<open>None\<close>). The
  \<open>changeRoomStatus\<close> it calls is the function object of the same render.
\<close>

definition startTask_closure ::
  "Profile option \<Rightarrow> Env \<Rightarrow> Room \<Rightarrow> TaskType \<Rightarrow> World \<Rightarrow> string option \<times> World" where
  "startTask_closure capturedUser env room tt w =
    (case capturedUser of
       None \<Rightarrow> (None, w)
     | Some user \<Rightarrow>
         (case createWorkLog env (room_number room) (id_profile user) tt
                 (Some (taskTypeName tt @ '' started for room '' @ room_number room)) (db w) of
            Inl msg \<Rightarrow>
              (None, w\<lparr>app := addNotification (now env) ''Error starting task'' msg error (app w)\<rparr>)
          | Inr (logId, d1) \<Rightarrow>
              let w1 = w\<lparr>db := d1, app := startTimer (now env) logId (room_number room) tt (app w)\<rparr>;
                  newStatus = startStatus room tt;
                  w2 = (if newStatus \<noteq> status room
                        then changeRoomStatus_closure capturedUser env room newStatus
                               (Some (taskTypeName tt @ '' started'')) w1
                        else w1)
              in (Some logId,
                  w2\<lparr>app := addNotification (now env) ''Task started''
                              (taskTypeName tt @ '' started for room '' @ room_number room)
                              success (app w2)\<rparr>)))"

definition startTask :: "Env \<Rightarrow> Room \<Rightarrow> TaskType \<Rightarrow> World \<Rightarrow> string option \<times> World" where
  "startTask env room tt w = startTask_closure (currentUser (app w)) env room tt w"

definition pauseTask_closure :: "TimerState \<Rightarrow> Env \<Rightarrow> World \<Rightarrow> World" where
  "pauseTask_closure capturedTimer env w =
    (let t = capturedTimer in
     if \<not> truthy_string (currentLogId t) then w
     else
       (case pauseWorkLog env (the (currentLogId t)) (elapsedTime t) (db w) of
          Inl msg \<Rightarrow>
            w\<lparr>app := addNotification (now env) ''Error pausing task'' msg error (app w)\<rparr>
        | Inr d1 \<Rightarrow>
            w\<lparr>db := d1,
              app := addNotification (now env) ''Task paused''
                       (''Task paused at '' @ formatDuration (elapsedTime t)) info
                       (pauseTimer (app w))\<rparr>))"

definition pauseTask :: "Env \<Rightarrow> World \<Rightarrow> World" where
  "pauseTask env w = pauseTask_closure (timer (app w)) env w"

definition resumeTask_closure :: "TimerState \<Rightarrow> Env \<Rightarrow> World \<Rightarrow> World" where
  "resumeTask_closure capturedTimer env w =
    (let t = capturedTimer in
     if \<not> truthy_string (currentLogId t) then w
     else
       (case resumeWorkLog env (the (currentLogId t)) (db w) of
          Inl msg \<Rightarrow>
            w\<lparr>app := addNotification (now env) ''Error resuming task'' msg error (app w)\<rparr>
        | Inr d1 \<Rightarrow>
            w\<lparr>db := d1,
              app := addNotification (now env) ''Task resumed'' ''Task timer resumed'' info
                       (resumeTimer (now env) (app w))\<rparr>))"

definition resumeTask :: "Env \<Rightarrow> World \<Rightarrow> World" where
  "resumeTask env w = resumeTask_closure (timer (app w)) env w"

text \<open>
  The status \<open>finishTask\<close> settles on: the argument when one is given, else what the
  \<open>switch\<close> on the timer's task type yields.
\<close>

fun finalStatus :: "Room \<Rightarrow> RoomStatus option \<Rightarrow> TaskType option \<Rightarrow> RoomStatus" where
  "finalStatus room (Some nextStatus) tt = nextStatus"
| "finalStatus room None (Some Cleaning_task) = Vacant_Clean"
| "finalStatus room None (Some Inspection_task) = Vacant_Clean_Inspected"
| "finalStatus room None (Some Repair_task) = Dirty"
| "finalStatus room None (Some Maintenance_task) = Dirty"
| "finalStatus room None None = status room"

text \<open>
  \<open>finishTask\<close>: the guard, the work-log request, the status change through the
  \<open>changeRoomStatus\<close> of the same render, the notification, and the reset of the
  store's timer. The guard, the task type and the elapsed time are read from the
  captured timer.
\<close>

definition finishTask_closure ::
  "TimerState \<Rightarrow> Profile option \<Rightarrow> Env \<Rightarrow> Room \<Rightarrow> RoomStatus option \<Rightarrow> World \<Rightarrow> World" where
  "finishTask_closure capturedTimer capturedUser env room nextStatus w =
    (let t = capturedTimer in
     if \<not> truthy_string (currentLogId t) \<or> capturedUser = None then w
     else
       (case finishWorkLog env (the (currentLogId t)) (elapsedTime t) (db w) of
          Inl msg \<Rightarrow>
            w\<lparr>app := addNotification (now env) ''Error completing task'' msg error (app w)\<rparr>
        | Inr d1 \<Rightarrow>
            let w1 = w\<lparr>db := d1\<rparr>;
                final = finalStatus room nextStatus (taskType t);
                w2 = (if final \<noteq> status room
                      then changeRoomStatus_closure capturedUser env room final
                             (Some (taskTypeText (taskType t) @ '' completed'')) w1
                      else w1);
                a3 = addNotification (now env) ''Task completed''
                       (taskTypeText (taskType t) @ '' completed for room '' @ room_number room
                        @ '' in '' @ formatDuration (elapsedTime t))
                       success (app w2)
            in w2\<lparr>app := resetTimer (stopTimer a3)\<rparr>))"

definition finishTask :: "Env \<Rightarrow> Room \<Rightarrow> RoomStatus option \<Rightarrow> World \<Rightarrow> World" where
  "finishTask env room nextStatus w =
    finishTask_closure (timer (app w)) (currentUser (app w)) env room nextStatus w"

section \<open>Example states\<close>

text \<open>
  Two rooms in the shape of the demo data of \<open>App.tsx\<close>, a housekeeper, a work log
  in progress, and the inputs of a call: one in which every request succeeds and
  one in which the audit table rejects the insert.
\<close>

definition ada :: Profile where
  "ada =
    \<lparr>id_profile = ''1'', full_name = ''Ada'', role = Housekeeping,
     email = None, avatar_url = None, created_at = None\<rparr>"

definition room_A104 :: Room where
  "room_A104 =
    \<lparr>id_room = ''4'', room_number = ''A104'', building = ''Building A'', floor_room = 1,
     status = Cleaning, room_type = ''Standard'', last_updated = 0,
     assigned_to = Some ''1'', current_task = None, notes_room = None,
     is_vip = None, guest_name = None\<rparr>"

definition room_B203 :: Room where
  "room_B203 =
    \<lparr>id_room = ''15'', room_number = ''B203'', building = ''Building B'', floor_room = 2,
     status = Out_of_Order, room_type = ''Pool Villa'', last_updated = 0,
     assigned_to = None, current_task = None, notes_room = None,
     is_vip = None, guest_name = None\<rparr>"

definition log_1 :: WorkLog where
  "log_1 =
    \<lparr>id_work = ''log-1'', room_number_work = ''A104'', staff_id = ''1'',
     task_type = Cleaning_task, start_time = 1000, pause_time = None, end_time = None,
     total_duration = None, description = None, status_work = In_Progress\<rparr>"

definition calm :: Env where
  "calm =
    \<lparr>now = 4000, updateRoomStatus_error = None, createAuditLog_error = None,
     createWorkLog_result = Inr ''log-2'', pauseWorkLog_error = None,
     resumeWorkLog_error = None, finishWorkLog_error = None\<rparr>"

definition audit_down :: Env where
  "audit_down = calm\<lparr>createAuditLog_error := Some ''audit_logs unavailable''\<rparr>"

definition world_idle :: World where
  "world_idle =
    \<lparr>app = \<lparr>currentUser = Some ada, rooms = [room_A104, room_B203],
             timer = initialTimer, notifications = []\<rparr>,
     db = \<lparr>rooms_table = [room_A104, room_B203], audit_logs = [], work_logs = []\<rparr>\<rparr>"

text \<open>Ada is cleaning A104: the timer started at 1000 ms and has counted 5 s.\<close>

definition world_running :: World where
  "world_running =
    \<lparr>app = \<lparr>currentUser = Some ada, rooms = [room_A104, room_B203],
             timer = \<lparr>isRunning = True, startTime = Some 1000, elapsedTime = 5,
                      currentLogId = Some ''log-1'', roomNumber = Some ''A104'',
                      taskType = Some Cleaning_task\<rparr>,
             notifications = []\<rparr>,
     db = \<lparr>rooms_table = [room_A104, room_B203], audit_logs = [], work_logs = [log_1]\<rparr>\<rparr>"

definition world_anonymous :: World where
  "world_anonymous = world_idle\<lparr>app := (app world_idle)\<lparr>currentUser := None\<rparr>\<rparr>"

section \<open>Auxiliary facts\<close>

lemmas store_defs = updateRoom_def addNotification_def startTimer_def pauseTimer_def
  resumeTimer_def stopTimer_def resetTimer_def

lemmas repo_defs = updateRoomStatus_def createAuditLog_def createWorkLog_def pauseWorkLog_def
  resumeWorkLog_def finishWorkLog_def

lemma availableStatuses_unknown:
  assumes "key \<notin> range statusName" and "key \<notin> set objectPrototypeKeys"
  shows "availableStatuses key = JS_array []"
proof -
  have "key \<noteq> statusName s" for s using assms(1) by blast
  from this [of Dirty] this [of Check_out_Inspected] this [of Cleaning] this [of Vacant_Clean]
    this [of Vacant_Clean_Inspected] this [of Occupied] this [of Out_of_Order] assms(2)
  show ?thesis by (simp add: availableStatuses_def statusWorkflow_read_def statusWorkflow_def)
qed

lemma constructor_unknown: "''constructor'' \<notin> range statusName"
proof -
  have "''constructor'' \<noteq> statusName s" for s by (cases s) simp_all
  then show ?thesis by blast
qed

lemma legalNextStates_rows:
  "legalNextStates Dirty = {Check_out_Inspected, Cleaning, Out_of_Order}"
  "legalNextStates Check_out_Inspected = {Cleaning, Out_of_Order}"
  "legalNextStates Cleaning = {Vacant_Clean, Dirty}"
  "legalNextStates Vacant_Clean = {Vacant_Clean_Inspected, Dirty, Occupied}"
  "legalNextStates Vacant_Clean_Inspected = {Occupied, Dirty}"
  "legalNextStates Occupied = {Dirty, Out_of_Order}"
  "legalNextStates Out_of_Order = {Dirty}"
  by (simp_all add: legalNextStates_def availableStatuses_def statusWorkflow_read_def
      statusWorkflow_def)

lemma not_self_legal: "s \<notin> legalNextStates s"
  by (cases s) (simp_all add: legalNextStates_rows)






lemma changeRoomStatus_closure_fresh:
  "currentUser (app w) = capturedUser
    \<Longrightarrow> changeRoomStatus_closure capturedUser env room newStatus notes w
        = changeRoomStatus env room newStatus notes w"
  by (simp add: changeRoomStatus_def)

lemma changeRoomStatus_timer:
  "timer (app (changeRoomStatus env room ns notes w)) = timer (app w)"
  by (simp add: changeRoomStatus_def changeRoomStatus_closure_def store_defs repo_defs Let_def split: option.splits sum.splits)

lemma changeRoomStatus_currentUser:
  "currentUser (app (changeRoomStatus env room ns notes w)) = currentUser (app w)"
  by (simp add: changeRoomStatus_def changeRoomStatus_closure_def store_defs repo_defs Let_def split: option.splits sum.splits)

lemma changeRoomStatus_work_logs:
  "work_logs (db (changeRoomStatus env room ns notes w)) = work_logs (db w)"
  by (auto simp add: changeRoomStatus_def changeRoomStatus_closure_def store_defs repo_defs Let_def split: option.splits sum.splits)

lemma changeRoomStatus_assigned_to:
  "map assigned_to (rooms (app (changeRoomStatus env room ns notes w)))
    = map assigned_to (rooms (app w))"
  by (auto simp add: changeRoomStatus_def changeRoomStatus_closure_def store_defs repo_defs Let_def split: option.splits sum.splits)

lemma changeRoomStatus_assigned_to_db:
  "map assigned_to (rooms_table (db (changeRoomStatus env room ns notes w)))
    = map assigned_to (rooms_table (db w))"
  by (auto simp add: changeRoomStatus_def changeRoomStatus_closure_def store_defs repo_defs Let_def split: option.splits sum.splits)

lemma changeRoomStatus_ok:
  assumes "currentUser (app w) = Some user"
    and "updateRoomStatus_error env = None"
    and "createAuditLog_error env = None"
  shows "changeRoomStatus env room newStatus notes w =
    \<lparr>app = (app w)
       \<lparr>rooms := map (\<lambda>r. if id_room r = id_room room
                          then r\<lparr>status := newStatus, last_updated := now env\<rparr> else r)
                     (rooms (app w)),
        notifications := take 50
          (\<lparr>title = ''Status updated'',
            message = ''Room '' @ room_number room @ '' changed from ''
                      @ statusName (status room) @ '' to '' @ statusName newStatus,
            type_notification = success, timestamp_notification = now env,
            read_notification = False\<rparr> # notifications (app w))\<rparr>,
      db = (db w)
       \<lparr>rooms_table := map (\<lambda>r. if id_room r = id_room room
                          then r\<lparr>status := newStatus, last_updated := now env\<rparr> else r)
                     (rooms_table (db w)),
        audit_logs := audit_logs (db w) @
          [\<lparr>room_number_audit = room_number room, changed_by = id_profile user,
            changer_name = Some (full_name user), changer_role = Some (role user),
            from_status = status room, to_status = newStatus,
            timestamp_audit = now env, notes_audit = notes\<rparr>]\<rparr>\<rparr>"
  using assms
  by (simp add: changeRoomStatus_def changeRoomStatus_closure_def store_defs repo_defs Let_def)

lemma changeRoomStatus_anonymous:
  assumes "currentUser (app w) = None"
  shows "changeRoomStatus env room newStatus notes w =
    w\<lparr>app := (app w)\<lparr>notifications := take 50
      (\<lparr>title = ''Authentication required'',
        message = ''Please log in to change room status'',
        type_notification = error, timestamp_notification = now env,
        read_notification = False\<rparr> # notifications (app w))\<rparr>\<rparr>"
  using assms by (simp add: changeRoomStatus_def changeRoomStatus_closure_def addNotification_def)

lemma changeRoomStatus_patch_fails:
  assumes "currentUser (app w) = Some user" and "updateRoomStatus_error env = Some msg"
  shows "changeRoomStatus env room newStatus notes w =
    w\<lparr>app := (app w)\<lparr>notifications := take 50
      (\<lparr>title = ''Error updating status'', message = msg,
        type_notification = error, timestamp_notification = now env,
        read_notification = False\<rparr> # notifications (app w))\<rparr>\<rparr>"
  using assms by (simp add: changeRoomStatus_def changeRoomStatus_closure_def addNotification_def updateRoomStatus_def)

lemma changeRoomStatus_audit_fails:
  assumes "currentUser (app w) = Some user" and "updateRoomStatus_error env = None"
    and "createAuditLog_error env = Some msg"
  shows "changeRoomStatus env room newStatus notes w =
    \<lparr>app = (app w)\<lparr>notifications := take 50
      (\<lparr>title = ''Error updating status'', message = msg,
        type_notification = error, timestamp_notification = now env,
        read_notification = False\<rparr> # notifications (app w))\<rparr>,
     db = (db w)\<lparr>rooms_table :=
       map (\<lambda>r. if id_room r = id_room room
                 then r\<lparr>status := newStatus, last_updated := now env\<rparr> else r)
           (rooms_table (db w))\<rparr>\<rparr>"
  using assms by (simp add: changeRoomStatus_def changeRoomStatus_closure_def store_defs repo_defs Let_def)

lemma finishTask_guard:
  "\<not> truthy_string (currentLogId (timer (app w))) \<or> currentUser (app w) = None
    \<Longrightarrow> finishTask env room nextStatus w = w"
  by (auto simp add: finishTask_def finishTask_closure_def Let_def)

lemma finishTask_completed:
  assumes "truthy_string (currentLogId (timer (app w)))" and "currentUser (app w) = Some user"
    and "finishWorkLog_error env = None"
  shows "finishTask env room nextStatus w =
    (let t = timer (app w);
         w1 = w\<lparr>db := (db w)\<lparr>work_logs :=
                map (\<lambda>l. if id_work l = the (currentLogId t)
                          then l\<lparr>end_time := Some (now env),
                                 total_duration := Some (elapsedTime t),
                                 status_work := Completed\<rparr>
                          else l)
                    (work_logs (db w))\<rparr>\<rparr>;
         final = finalStatus room nextStatus (taskType t);
         w2 = (if final \<noteq> status room
               then changeRoomStatus env room final
                      (Some (taskTypeText (taskType t) @ '' completed'')) w1
               else w1)
     in w2\<lparr>app := (app w2)\<lparr>timer := initialTimer,
          notifications := take 50
            (\<lparr>title = ''Task completed'',
              message = taskTypeText (taskType t) @ '' completed for room ''
                        @ room_number room @ '' in '' @ formatDuration (elapsedTime t),
              type_notification = success, timestamp_notification = now env,
              read_notification = False\<rparr> # notifications (app w2))\<rparr>\<rparr>)"
  using assms
  by (simp add: finishTask_def finishTask_closure_def changeRoomStatus_closure_fresh Let_def
      finishWorkLog_def addNotification_def stopTimer_def
      resetTimer_def)

lemma finishTask_timer_reset:
  assumes "truthy_string (currentLogId (timer (app w)))" and "currentUser (app w) = Some user"
    and "finishWorkLog_error env = None"
  shows "timer (app (finishTask env room nextStatus w)) = initialTimer"
  by (simp add: finishTask_completed [OF assms] Let_def)

lemma finishTask_assigned_to:
  assumes "truthy_string (currentLogId (timer (app w)))" and "currentUser (app w) = Some user"
    and "finishWorkLog_error env = None"
  shows "map assigned_to (rooms (app (finishTask env room nextStatus w)))
      = map assigned_to (rooms (app w))"
    and "map assigned_to (rooms_table (db (finishTask env room nextStatus w)))
      = map assigned_to (rooms_table (db w))"
  by (simp_all add: finishTask_completed [OF assms] Let_def changeRoomStatus_assigned_to
      changeRoomStatus_assigned_to_db)

lemma initialTimer_no_log: "\<not> truthy_string (currentLogId initialTimer)"
  by (simp add: initialTimer_def)

lemma finishTask_changes_status:
  assumes "truthy_string (currentLogId (timer (app w)))" and "currentUser (app w) = Some user"
    and "finishWorkLog_error env = None" and "updateRoomStatus_error env = None"
    and "createAuditLog_error env = None"
    and "finalStatus room nextStatus (taskType (timer (app w))) \<noteq> status room"
  shows "rooms (app (finishTask env room nextStatus w)) =
      map (\<lambda>r. if id_room r = id_room room
                then r\<lparr>status := finalStatus room nextStatus (taskType (timer (app w))),
                       last_updated := now env\<rparr>
                else r)
          (rooms (app w))"
    and "audit_logs (db (finishTask env room nextStatus w)) = audit_logs (db w) @
      [\<lparr>room_number_audit = room_number room, changed_by = id_profile user,
        changer_name = Some (full_name user), changer_role = Some (role user),
        from_status = status room,
        to_status = finalStatus room nextStatus (taskType (timer (app w))),
        timestamp_audit = now env,
        notes_audit = Some (taskTypeText (taskType (timer (app w))) @ '' completed'')\<rparr>]"
  using assms(2,4,5,6)
  by (simp_all add: finishTask_completed [OF assms(1,2,3)] Let_def changeRoomStatus_ok)

lemma finishTask_keeps_status:
  assumes "truthy_string (currentLogId (timer (app w)))" and "currentUser (app w) = Some user"
    and "finishWorkLog_error env = None"
    and "finalStatus room nextStatus (taskType (timer (app w))) = status room"
  shows "rooms (app (finishTask env room nextStatus w)) = rooms (app w)"
    and "audit_logs (db (finishTask env room nextStatus w)) = audit_logs (db w)"
    and "rooms_table (db (finishTask env room nextStatus w)) = rooms_table (db w)"
  using assms(4)
  by (simp_all add: finishTask_completed [OF assms(1,2,3)] Let_def)

lemma startTask_started:
  assumes "currentUser (app w) = Some user" and "createWorkLog_result env = Inr logId"
  shows "fst (startTask env room tt w) = Some logId"
    and "timer (app (snd (startTask env room tt w))) =
      \<lparr>isRunning = True, startTime = Some (now env), elapsedTime = 0,
       currentLogId = Some logId, roomNumber = Some (room_number room), taskType = Some tt\<rparr>"
    and "work_logs (db (snd (startTask env room tt w))) = work_logs (db w) @
      [\<lparr>id_work = logId, room_number_work = room_number room, staff_id = id_profile user,
        task_type = tt, start_time = now env, pause_time = None, end_time = None,
        total_duration = None,
        description = Some (taskTypeName tt @ '' started for room '' @ room_number room),
        status_work = In_Progress\<rparr>]"
  using assms
  by (simp_all add: startTask_def startTask_closure_def changeRoomStatus_closure_fresh Let_def
      createWorkLog_def addNotification_def startTimer_def
      changeRoomStatus_timer changeRoomStatus_work_logs)

lemma pauseTask_guard:
  "\<not> truthy_string (currentLogId (timer (app w))) \<Longrightarrow> pauseTask env w = w"
  by (simp add: pauseTask_def pauseTask_closure_def Let_def)

lemma pauseTask_timer:
  "timer (app (pauseTask env w)) = timer (app w)
    \<or> timer (app (pauseTask env w)) = (timer (app w))\<lparr>isRunning := False, startTime := None\<rparr>"
  by (simp add: pauseTask_def pauseTask_closure_def Let_def pauseWorkLog_def addNotification_def pauseTimer_def
      split: option.splits)

lemma pauseTask_paused:
  assumes "truthy_string (currentLogId (timer (app w)))" and "pauseWorkLog_error env = None"
  shows "timer (app (pauseTask env w)) = (timer (app w))\<lparr>isRunning := False, startTime := None\<rparr>"
    and "work_logs (db (pauseTask env w)) =
      map (\<lambda>l. if id_work l = the (currentLogId (timer (app w)))
                then l\<lparr>pause_time := Some (now env),
                       total_duration := Some (elapsedTime (timer (app w))),
                       status_work := Paused\<rparr>
                else l)
          (work_logs (db w))"
  using assms
  by (simp_all add: pauseTask_def pauseTask_closure_def Let_def pauseWorkLog_def addNotification_def pauseTimer_def)

lemma timer_already_paused:
  "\<not> isRunning t \<Longrightarrow> startTime t = None \<Longrightarrow> t\<lparr>isRunning := False, startTime := None\<rparr> = t"
  by simp

section \<open>Changing a room's status\<close>

text \<open>
  Claim C1 says that \<open>changeRoomStatus\<close> succeeds exactly for the targets the table
  allows and otherwise fails without a trace. The code never consults the table:
  here room B203 is Out of Order, Occupied is not among its legal successors, and
  the call still patches the room, records the audit entry Out of Order \<open>\<rightarrow>\<close> Occupied
  and reports success.
\<close>

theorem changeRoomStatus_illegal_target_succeeds:
  "status room_B203 = Out_of_Order
   \<and> Occupied \<notin> legalNextStates Out_of_Order
   \<and> map status (rooms (app world_idle)) = [Cleaning, Out_of_Order]
   \<and> audit_logs (db world_idle) = []
   \<and> map status (rooms (app (changeRoomStatus calm room_B203 Occupied None world_idle)))
       = [Cleaning, Occupied]
   \<and> map (\<lambda>l. (room_number_audit l, from_status l, to_status l))
         (audit_logs (db (changeRoomStatus calm room_B203 Occupied None world_idle)))
       = [(''B203'', Out_of_Order, Occupied)]
   \<and> map type_notification
         (notifications (app (changeRoomStatus calm room_B203 Occupied None world_idle)))
       = [success]"
proof -
  have "status room_B203 = Out_of_Order" by (simp add: room_B203_def)
  moreover have "Occupied \<notin> legalNextStates Out_of_Order" by (simp add: legalNextStates_rows)
  moreover have "map status (rooms (app world_idle)) = [Cleaning, Out_of_Order]" by code_simp
  moreover have "audit_logs (db world_idle) = []" by (simp add: world_idle_def)
  moreover have "map status (rooms (app (changeRoomStatus calm room_B203 Occupied None world_idle)))
       = [Cleaning, Occupied]" by code_simp
  moreover have "map (\<lambda>l. (room_number_audit l, from_status l, to_status l))
         (audit_logs (db (changeRoomStatus calm room_B203 Occupied None world_idle)))
       = [(''B203'', Out_of_Order, Occupied)]" by code_simp
  moreover have "map type_notification
         (notifications (app (changeRoomStatus calm room_B203 Occupied None world_idle)))
       = [success]" by code_simp
  ultimately show ?thesis by (intro conjI)
qed

text \<open>
  Claim C1, amended. For every room and every target status, in the table or not:
  with a user logged in and both requests succeeding, \<open>changeRoomStatus\<close> patches
  the remote row, appends one audit entry from the room's status to the target,
  updates the room in the store and adds the success notification. The table only
  decides which targets the room modal offers.
\<close>

theorem changeRoomStatus_any_target:
  assumes "currentUser (app w) = Some user"
    and "updateRoomStatus_error env = None"
    and "createAuditLog_error env = None"
  shows "rooms_table (db (changeRoomStatus env room newStatus notes w)) =
      map (\<lambda>r. if id_room r = id_room room
                then r\<lparr>status := newStatus, last_updated := now env\<rparr> else r)
          (rooms_table (db w))
    \<and> audit_logs (db (changeRoomStatus env room newStatus notes w)) = audit_logs (db w) @
        [\<lparr>room_number_audit = room_number room, changed_by = id_profile user,
          changer_name = Some (full_name user), changer_role = Some (role user),
          from_status = status room, to_status = newStatus,
          timestamp_audit = now env, notes_audit = notes\<rparr>]
    \<and> rooms (app (changeRoomStatus env room newStatus notes w)) =
        map (\<lambda>r. if id_room r = id_room room
                  then r\<lparr>status := newStatus, last_updated := now env\<rparr> else r)
            (rooms (app w))
    \<and> notifications (app (changeRoomStatus env room newStatus notes w)) = take 50
        (\<lparr>title = ''Status updated'',
          message = ''Room '' @ room_number room @ '' changed from ''
                    @ statusName (status room) @ '' to '' @ statusName newStatus,
          type_notification = success, timestamp_notification = now env,
          read_notification = False\<rparr> # notifications (app w))"
  by (simp add: changeRoomStatus_ok [OF assms])

text \<open>
  C1 amended, at the transition Out of Order \<open>\<rightarrow>\<close> Occupied of room B203, which the
  table does not list.
\<close>

theorem changeRoomStatus_any_target_witness:
  "currentUser (app world_idle) = Some ada
   \<and> updateRoomStatus_error calm = None
   \<and> createAuditLog_error calm = None
   \<and> Occupied \<notin> legalNextStates (status room_B203)
   \<and> rooms (app (changeRoomStatus calm room_B203 Occupied None world_idle)) =
       map (\<lambda>r. if id_room r = id_room room_B203
                 then r\<lparr>status := Occupied, last_updated := now calm\<rparr> else r)
           (rooms (app world_idle))
   \<and> audit_logs (db (changeRoomStatus calm room_B203 Occupied None world_idle)) =
       audit_logs (db world_idle) @
       [\<lparr>room_number_audit = room_number room_B203, changed_by = id_profile ada,
         changer_name = Some (full_name ada), changer_role = Some (role ada),
         from_status = status room_B203, to_status = Occupied,
         timestamp_audit = now calm, notes_audit = None\<rparr>]"
proof -
  have user: "currentUser (app world_idle) = Some ada" by (simp add: world_idle_def)
  have patch: "updateRoomStatus_error calm = None" by (simp add: calm_def)
  have audit: "createAuditLog_error calm = None" by (simp add: calm_def)
  have illegal: "Occupied \<notin> legalNextStates (status room_B203)"
    by (simp add: room_B203_def legalNextStates_rows)
  note result = changeRoomStatus_any_target [OF user patch audit, of room_B203 Occupied None]
  from result have local:
    "rooms (app (changeRoomStatus calm room_B203 Occupied None world_idle)) =
       map (\<lambda>r. if id_room r = id_room room_B203
                 then r\<lparr>status := Occupied, last_updated := now calm\<rparr> else r)
           (rooms (app world_idle))" by (elim conjE)
  from result have trail:
    "audit_logs (db (changeRoomStatus calm room_B203 Occupied None world_idle)) =
       audit_logs (db world_idle) @
       [\<lparr>room_number_audit = room_number room_B203, changed_by = id_profile ada,
         changer_name = Some (full_name ada), changer_role = Some (role ada),
         from_status = status room_B203, to_status = Occupied,
         timestamp_audit = now calm, notes_audit = None\<rparr>]" by (elim conjE)
  from user patch audit illegal local trail show ?thesis by (intro conjI)
qed

text \<open>
  Claim C3 says that the registry is mutated before the audit entry is appended and
  stays mutated when the append fails. The registry of the spec is the in-memory
  view of the rooms, patched with the status and \<open>last_updated\<close>: the store's
  \<open>updateRoom\<close>, which the code calls after the audit entry. Here the audit insert
  fails on the legal transition Out of Order \<open>\<rightarrow>\<close> Dirty of room B203: the remote
  row is Dirty, the room in the store is still Out of Order.
\<close>

theorem changeRoomStatus_audit_failure_leaves_store_stale:
  "currentUser (app world_idle) = Some ada
   \<and> Dirty \<in> legalNextStates (status room_B203)
   \<and> updateRoomStatus_error audit_down = None
   \<and> createAuditLog_error audit_down = Some ''audit_logs unavailable''
   \<and> map status (rooms (app (changeRoomStatus audit_down room_B203 Dirty None world_idle)))
       = [Cleaning, Out_of_Order]
   \<and> map status (rooms_table (db (changeRoomStatus audit_down room_B203 Dirty None world_idle)))
       = [Cleaning, Dirty]
   \<and> audit_logs (db (changeRoomStatus audit_down room_B203 Dirty None world_idle)) = []"
proof -
  have "currentUser (app world_idle) = Some ada" by (simp add: world_idle_def)
  moreover have "Dirty \<in> legalNextStates (status room_B203)"
    by (simp add: room_B203_def legalNextStates_rows)
  moreover have "updateRoomStatus_error audit_down = None" by (simp add: audit_down_def calm_def)
  moreover have "createAuditLog_error audit_down = Some ''audit_logs unavailable''"
    by (simp add: audit_down_def)
  moreover have
    "map status (rooms (app (changeRoomStatus audit_down room_B203 Dirty None world_idle)))
       = [Cleaning, Out_of_Order]" by code_simp
  moreover have
    "map status (rooms_table (db (changeRoomStatus audit_down room_B203 Dirty None world_idle)))
       = [Cleaning, Dirty]" by code_simp
  moreover have
    "audit_logs (db (changeRoomStatus audit_down room_B203 Dirty None world_idle)) = []"
    by code_simp
  ultimately show ?thesis by (intro conjI)
qed

text \<open>
  Claim C3, amended. \<open>changeRoomStatus\<close> writes in the order remote patch, audit
  entry, store. When the remote patch fails nothing is written anywhere. When the
  patch succeeds and the audit insert fails, the remote patch stays (it is not
  rolled back), no audit entry exists, the rooms of the store are left as they
  were, and the failure is reported as the error notification
  ``Error updating status'' carrying the message.
\<close>

theorem changeRoomStatus_write_order:
  assumes "currentUser (app w) = Some user"
  shows "(updateRoomStatus_error env = Some msg \<longrightarrow>
        db (changeRoomStatus env room newStatus notes w) = db w
      \<and> rooms (app (changeRoomStatus env room newStatus notes w)) = rooms (app w)
      \<and> notifications (app (changeRoomStatus env room newStatus notes w)) = take 50
          (\<lparr>title = ''Error updating status'', message = msg,
            type_notification = error, timestamp_notification = now env,
            read_notification = False\<rparr> # notifications (app w)))
    \<and> (updateRoomStatus_error env = None \<and> createAuditLog_error env = Some msg \<longrightarrow>
        rooms_table (db (changeRoomStatus env room newStatus notes w)) =
          map (\<lambda>r. if id_room r = id_room room
                    then r\<lparr>status := newStatus, last_updated := now env\<rparr> else r)
              (rooms_table (db w))
      \<and> audit_logs (db (changeRoomStatus env room newStatus notes w)) = audit_logs (db w)
      \<and> rooms (app (changeRoomStatus env room newStatus notes w)) = rooms (app w)
      \<and> notifications (app (changeRoomStatus env room newStatus notes w)) = take 50
          (\<lparr>title = ''Error updating status'', message = msg,
            type_notification = error, timestamp_notification = now env,
            read_notification = False\<rparr> # notifications (app w)))"
proof (intro conjI impI)
  assume fails: "updateRoomStatus_error env = Some msg"
  note r = changeRoomStatus_patch_fails [OF assms fails, of room newStatus "notes"]
  show "db (changeRoomStatus env room newStatus notes w) = db w" by (simp add: r)
  show "rooms (app (changeRoomStatus env room newStatus notes w)) = rooms (app w)"
    by (simp add: r)
  show "notifications (app (changeRoomStatus env room newStatus notes w)) = take 50
          (\<lparr>title = ''Error updating status'', message = msg,
            type_notification = error, timestamp_notification = now env,
            read_notification = False\<rparr> # notifications (app w))" by (simp add: r)
next
  assume "updateRoomStatus_error env = None \<and> createAuditLog_error env = Some msg"
  then have ok: "updateRoomStatus_error env = None"
    and fails: "createAuditLog_error env = Some msg" by simp_all
  note r = changeRoomStatus_audit_fails [OF assms ok fails, of room newStatus "notes"]
  show "rooms_table (db (changeRoomStatus env room newStatus notes w)) =
          map (\<lambda>r. if id_room r = id_room room
                    then r\<lparr>status := newStatus, last_updated := now env\<rparr> else r)
              (rooms_table (db w))" by (simp add: r)
  show "audit_logs (db (changeRoomStatus env room newStatus notes w)) = audit_logs (db w)"
    by (simp add: r)
  show "rooms (app (changeRoomStatus env room newStatus notes w)) = rooms (app w)"
    by (simp add: r)
  show "notifications (app (changeRoomStatus env room newStatus notes w)) = take 50
          (\<lparr>title = ''Error updating status'', message = msg,
            type_notification = error, timestamp_notification = now env,
            read_notification = False\<rparr> # notifications (app w))" by (simp add: r)
qed

text \<open>
  C3 amended, with the audit table rejecting the insert for room B203.
\<close>

theorem changeRoomStatus_write_order_witness:
  "currentUser (app world_idle) = Some ada
   \<and> updateRoomStatus_error audit_down = None
   \<and> createAuditLog_error audit_down = Some ''audit_logs unavailable''
   \<and> rooms_table (db (changeRoomStatus audit_down room_B203 Dirty None world_idle)) =
       map (\<lambda>r. if id_room r = id_room room_B203
                 then r\<lparr>status := Dirty, last_updated := now audit_down\<rparr> else r)
           (rooms_table (db world_idle))
   \<and> audit_logs (db (changeRoomStatus audit_down room_B203 Dirty None world_idle))
       = audit_logs (db world_idle)
   \<and> rooms (app (changeRoomStatus audit_down room_B203 Dirty None world_idle))
       = rooms (app world_idle)
   \<and> notifications (app (changeRoomStatus audit_down room_B203 Dirty None world_idle)) = take 50
       (\<lparr>title = ''Error updating status'', message = ''audit_logs unavailable'',
         type_notification = error, timestamp_notification = now audit_down,
         read_notification = False\<rparr> # notifications (app world_idle))"
proof -
  have user: "currentUser (app world_idle) = Some ada" by (simp add: world_idle_def)
  have ok: "updateRoomStatus_error audit_down = None" by (simp add: audit_down_def calm_def)
  have fails: "createAuditLog_error audit_down = Some ''audit_logs unavailable''"
    by (simp add: audit_down_def)
  from ok fails have both: "updateRoomStatus_error audit_down = None
      \<and> createAuditLog_error audit_down = Some ''audit_logs unavailable''" by (intro conjI)
  note order = changeRoomStatus_write_order [OF user,
      of audit_down "''audit_logs unavailable''" room_B203 Dirty None, THEN conjunct2]
  from order both have result:
    "rooms_table (db (changeRoomStatus audit_down room_B203 Dirty None world_idle)) =
       map (\<lambda>r. if id_room r = id_room room_B203
                 then r\<lparr>status := Dirty, last_updated := now audit_down\<rparr> else r)
           (rooms_table (db world_idle))
   \<and> audit_logs (db (changeRoomStatus audit_down room_B203 Dirty None world_idle))
       = audit_logs (db world_idle)
   \<and> rooms (app (changeRoomStatus audit_down room_B203 Dirty None world_idle))
       = rooms (app world_idle)
   \<and> notifications (app (changeRoomStatus audit_down room_B203 Dirty None world_idle)) = take 50
       (\<lparr>title = ''Error updating status'', message = ''audit_logs unavailable'',
         type_notification = error, timestamp_notification = now audit_down,
         read_notification = False\<rparr> # notifications (app world_idle))" by (rule mp)
  show ?thesis by (rule conjI [OF user conjI [OF ok conjI [OF fails result]]])
qed

text \<open>
  Claim C10. With no user logged in, \<open>changeRoomStatus\<close> adds the error notification
  ``Authentication required'' and does nothing else: the remote tables, the rooms
  and the timer are as before.
\<close>

theorem changeRoomStatus_requires_login:
  assumes "currentUser (app w) = None"
  shows "changeRoomStatus env room newStatus notes w =
      w\<lparr>app := (app w)\<lparr>notifications := take 50
        (\<lparr>title = ''Authentication required'',
          message = ''Please log in to change room status'',
          type_notification = error, timestamp_notification = now env,
          read_notification = False\<rparr> # notifications (app w))\<rparr>\<rparr>
    \<and> db (changeRoomStatus env room newStatus notes w) = db w
    \<and> rooms (app (changeRoomStatus env room newStatus notes w)) = rooms (app w)
    \<and> timer (app (changeRoomStatus env room newStatus notes w)) = timer (app w)"
  by (simp add: changeRoomStatus_anonymous [OF assms])

text \<open>
  C10 on the example without a user.
\<close>

theorem changeRoomStatus_requires_login_witness:
  "currentUser (app world_anonymous) = None
   \<and> db (changeRoomStatus calm room_B203 Dirty None world_anonymous) = db world_anonymous
   \<and> rooms (app (changeRoomStatus calm room_B203 Dirty None world_anonymous))
       = rooms (app world_anonymous)
   \<and> notifications (app (changeRoomStatus calm room_B203 Dirty None world_anonymous)) =
       [\<lparr>title = ''Authentication required'',
         message = ''Please log in to change room status'',
         type_notification = error, timestamp_notification = 4000,
         read_notification = False\<rparr>]"
proof -
  have anon: "currentUser (app world_anonymous) = None"
    by (simp add: world_anonymous_def)
  note result = changeRoomStatus_requires_login [OF anon, of calm room_B203 Dirty None]
  from result have remote:
    "db (changeRoomStatus calm room_B203 Dirty None world_anonymous) = db world_anonymous"
    by (elim conjE)
  from result have local:
    "rooms (app (changeRoomStatus calm room_B203 Dirty None world_anonymous))
       = rooms (app world_anonymous)" by (elim conjE)
  from result have "changeRoomStatus calm room_B203 Dirty None world_anonymous =
      world_anonymous\<lparr>app := (app world_anonymous)\<lparr>notifications := take 50
        (\<lparr>title = ''Authentication required'',
          message = ''Please log in to change room status'',
          type_notification = error, timestamp_notification = now calm,
          read_notification = False\<rparr> # notifications (app world_anonymous))\<rparr>\<rparr>"
    by (elim conjE)
  then have notif:
    "notifications (app (changeRoomStatus calm room_B203 Dirty None world_anonymous)) =
       [\<lparr>title = ''Authentication required'',
         message = ''Please log in to change room status'',
         type_notification = error, timestamp_notification = 4000,
         read_notification = False\<rparr>]"
    by (simp add: world_anonymous_def world_idle_def calm_def)
  from anon remote local notif show ?thesis by (intro conjI)
qed

section \<open>Starting a task\<close>

text \<open>
  Claim C2 says that \<open>startTask\<close> fails while a task is outstanding. The code does
  not look at the timer: while Ada's cleaning of A104 is running, starting a repair
  of B203 creates the work log ``log-2'', replaces the timer by a fresh one for the
  repair and reports success.
\<close>

theorem startTask_while_a_task_is_running:
  "isRunning (timer (app world_running))
   \<and> currentLogId (timer (app world_running)) = Some ''log-1''
   \<and> fst (startTask calm room_B203 Repair_task world_running) = Some ''log-2''
   \<and> timer (app (snd (startTask calm room_B203 Repair_task world_running))) =
       \<lparr>isRunning = True, startTime = Some 4000, elapsedTime = 0,
        currentLogId = Some ''log-2'', roomNumber = Some ''B203'',
        taskType = Some Repair_task\<rparr>
   \<and> map id_work (work_logs (db (snd (startTask calm room_B203 Repair_task world_running))))
       = [''log-1'', ''log-2'']
   \<and> map type_notification
         (notifications (app (snd (startTask calm room_B203 Repair_task world_running))))
       = [success]"
proof -
  have "isRunning (timer (app world_running))" by (simp add: world_running_def)
  moreover have "currentLogId (timer (app world_running)) = Some ''log-1''"
    by (simp add: world_running_def)
  moreover have "fst (startTask calm room_B203 Repair_task world_running) = Some ''log-2''"
    by code_simp
  moreover have "timer (app (snd (startTask calm room_B203 Repair_task world_running))) =
       \<lparr>isRunning = True, startTime = Some 4000, elapsedTime = 0,
        currentLogId = Some ''log-2'', roomNumber = Some ''B203'',
        taskType = Some Repair_task\<rparr>" by code_simp
  moreover have
    "map id_work (work_logs (db (snd (startTask calm room_B203 Repair_task world_running))))
       = [''log-1'', ''log-2'']" by code_simp
  moreover have "map type_notification
         (notifications (app (snd (startTask calm room_B203 Repair_task world_running))))
       = [success]" by code_simp
  ultimately show ?thesis by (intro conjI)
qed

text \<open>
  Claim C2, amended. For every room and task type and whatever the timer holds:
  with a user logged in and the work log created, \<open>startTask\<close> returns the new
  log's id, appends the work log, and replaces the timer by a running one for the
  new task with nothing elapsed.
\<close>

theorem startTask_replaces_timer:
  assumes "currentUser (app w) = Some user" and "createWorkLog_result env = Inr logId"
  shows "fst (startTask env room tt w) = Some logId
    \<and> timer (app (snd (startTask env room tt w))) =
        \<lparr>isRunning = True, startTime = Some (now env), elapsedTime = 0,
         currentLogId = Some logId, roomNumber = Some (room_number room), taskType = Some tt\<rparr>
    \<and> work_logs (db (snd (startTask env room tt w))) = work_logs (db w) @
        [\<lparr>id_work = logId, room_number_work = room_number room, staff_id = id_profile user,
          task_type = tt, start_time = now env, pause_time = None, end_time = None,
          total_duration = None,
          description = Some (taskTypeName tt @ '' started for room '' @ room_number room),
          status_work = In_Progress\<rparr>]"
  by (intro conjI) (rule startTask_started [OF assms])+

text \<open>
  C2 amended, on the example in which a task is already running.
\<close>

theorem startTask_replaces_timer_witness:
  "currentUser (app world_running) = Some ada
   \<and> createWorkLog_result calm = Inr ''log-2''
   \<and> isRunning (timer (app world_running))
   \<and> fst (startTask calm room_B203 Repair_task world_running) = Some ''log-2''
   \<and> timer (app (snd (startTask calm room_B203 Repair_task world_running))) =
        \<lparr>isRunning = True, startTime = Some (now calm), elapsedTime = 0,
         currentLogId = Some ''log-2'', roomNumber = Some (room_number room_B203),
         taskType = Some Repair_task\<rparr>"
proof -
  have user: "currentUser (app world_running) = Some ada" by (simp add: world_running_def)
  have created: "createWorkLog_result calm = Inr ''log-2''" by (simp add: calm_def)
  have running: "isRunning (timer (app world_running))" by (simp add: world_running_def)
  note result = startTask_replaces_timer [OF user created, of room_B203 Repair_task]
  from result have logId: "fst (startTask calm room_B203 Repair_task world_running) = Some ''log-2''"
    by (elim conjE)
  from result have fresh: "timer (app (snd (startTask calm room_B203 Repair_task world_running))) =
        \<lparr>isRunning = True, startTime = Some (now calm), elapsedTime = 0,
         currentLogId = Some ''log-2'', roomNumber = Some (room_number room_B203),
         taskType = Some Repair_task\<rparr>" by (elim conjE)
  from user created running logId fresh show ?thesis by (intro conjI)
qed

section \<open>Pausing\<close>

text \<open>
  Claim C6 says that pausing adds the time since the captured start to the elapsed
  seconds. \<open>pauseTimer\<close> does not read the clock: here the timer started at 1000 ms
  with 5 s counted and is paused at 4000 ms, so the claim asks for 8 s, and both
  the timer and the work log hold 5 s.
\<close>

theorem pause_drops_time_since_last_tick:
  "isRunning (timer (app world_running))
   \<and> startTime (timer (app world_running)) = Some 1000
   \<and> elapsedTime (timer (app world_running)) = 5
   \<and> now calm = 4000
   \<and> elapsedTime (timer (app world_running)) + (now calm - 1000) div 1000 = 8
   \<and> elapsedTime (timer (pauseTimer (app world_running))) = 5
   \<and> timer (app (pauseTask calm world_running)) =
       \<lparr>isRunning = False, startTime = None, elapsedTime = 5,
        currentLogId = Some ''log-1'', roomNumber = Some ''A104'',
        taskType = Some Cleaning_task\<rparr>
   \<and> map total_duration (work_logs (db (pauseTask calm world_running))) = [Some 5]"
proof -
  have "isRunning (timer (app world_running))" by (simp add: world_running_def)
  moreover have "startTime (timer (app world_running)) = Some 1000"
    by (simp add: world_running_def)
  moreover have "elapsedTime (timer (app world_running)) = 5" by (simp add: world_running_def)
  moreover have "now calm = 4000" by (simp add: calm_def)
  moreover have "elapsedTime (timer (app world_running)) + (now calm - 1000) div 1000 = 8"
    by (simp add: world_running_def calm_def)
  moreover have "elapsedTime (timer (pauseTimer (app world_running))) = 5"
    by (simp add: world_running_def pauseTimer_def)
  moreover have "timer (app (pauseTask calm world_running)) =
       \<lparr>isRunning = False, startTime = None, elapsedTime = 5,
        currentLogId = Some ''log-1'', roomNumber = Some ''A104'',
        taskType = Some Cleaning_task\<rparr>" by code_simp
  moreover have "map total_duration (work_logs (db (pauseTask calm world_running))) = [Some 5]"
    by code_simp
  ultimately show ?thesis by (intro conjI)
qed

text \<open>
  Claim C6, amended. \<open>pauseTimer\<close> clears the running flag and the start time and
  keeps the elapsed seconds as \<open>tick\<close> left them; on a timer that is not running
  and has no start time it changes nothing. \<open>pauseTask\<close> with an active log and a
  successful request pauses the timer so and stores that elapsed time in the work
  log; on a timer that is not running it leaves the timer as it is, and with no
  active log it does nothing at all.
\<close>

theorem pause_keeps_elapsed:
  "timer (pauseTimer s) = (timer s)\<lparr>isRunning := False, startTime := None\<rparr>
   \<and> elapsedTime (timer (pauseTimer s)) = elapsedTime (timer s)
   \<and> (\<not> isRunning (timer s) \<and> startTime (timer s) = None \<longrightarrow> pauseTimer s = s)
   \<and> (truthy_string (currentLogId (timer (app w))) \<and> pauseWorkLog_error env = None
      \<longrightarrow> timer (app (pauseTask env w)) = (timer (app w))\<lparr>isRunning := False, startTime := None\<rparr>
        \<and> work_logs (db (pauseTask env w)) =
            map (\<lambda>l. if id_work l = the (currentLogId (timer (app w)))
                      then l\<lparr>pause_time := Some (now env),
                             total_duration := Some (elapsedTime (timer (app w))),
                             status_work := Paused\<rparr>
                      else l)
                (work_logs (db w)))
   \<and> (\<not> isRunning (timer (app w)) \<and> startTime (timer (app w)) = None
      \<longrightarrow> timer (app (pauseTask env w)) = timer (app w))
   \<and> (\<not> truthy_string (currentLogId (timer (app w))) \<longrightarrow> pauseTask env w = w)"
proof (intro conjI impI)
  show "timer (pauseTimer s) = (timer s)\<lparr>isRunning := False, startTime := None\<rparr>"
    by (simp add: pauseTimer_def)
  show "elapsedTime (timer (pauseTimer s)) = elapsedTime (timer s)"
    by (simp add: pauseTimer_def)
next
  assume "\<not> isRunning (timer s) \<and> startTime (timer s) = None"
  then show "pauseTimer s = s" by (simp add: pauseTimer_def)
next
  assume a: "truthy_string (currentLogId (timer (app w))) \<and> pauseWorkLog_error env = None"
  then have h: "truthy_string (currentLogId (timer (app w)))" "pauseWorkLog_error env = None"
    by simp_all
  show "timer (app (pauseTask env w)) = (timer (app w))\<lparr>isRunning := False, startTime := None\<rparr>"
    by (rule pauseTask_paused(1) [OF h])
  show "work_logs (db (pauseTask env w)) =
            map (\<lambda>l. if id_work l = the (currentLogId (timer (app w)))
                      then l\<lparr>pause_time := Some (now env),
                             total_duration := Some (elapsedTime (timer (app w))),
                             status_work := Paused\<rparr>
                      else l)
                (work_logs (db w))"
    by (rule pauseTask_paused(2) [OF h])
next
  assume "\<not> isRunning (timer (app w)) \<and> startTime (timer (app w)) = None"
  then have "(timer (app w))\<lparr>isRunning := False, startTime := None\<rparr> = timer (app w)"
    by (simp add: timer_already_paused)
  with pauseTask_timer [of env w] show "timer (app (pauseTask env w)) = timer (app w)"
    by auto
next
  assume "\<not> truthy_string (currentLogId (timer (app w)))"
  then show "pauseTask env w = w" by (rule pauseTask_guard)
qed

text \<open>
  C6 amended: pausing the running example, pausing it once more, and pausing with
  no task.
\<close>

theorem pause_keeps_elapsed_witness:
  "truthy_string (currentLogId (timer (app world_running)))
   \<and> pauseWorkLog_error calm = None
   \<and> timer (app (pauseTask calm world_running))
       = (timer (app world_running))\<lparr>isRunning := False, startTime := None\<rparr>
   \<and> elapsedTime (timer (app (pauseTask calm world_running))) = 5
   \<and> \<not> isRunning (timer (app (pauseTask calm world_running)))
   \<and> startTime (timer (app (pauseTask calm world_running))) = None
   \<and> timer (app (pauseTask calm (pauseTask calm world_running)))
       = timer (app (pauseTask calm world_running))
   \<and> pauseTimer (app (pauseTask calm world_running)) = app (pauseTask calm world_running)
   \<and> \<not> truthy_string (currentLogId (timer (app world_idle)))
   \<and> pauseTask calm world_idle = world_idle"
proof -
  have active: "truthy_string (currentLogId (timer (app world_running)))"
    by (simp add: world_running_def)
  have ok: "pauseWorkLog_error calm = None" by (simp add: calm_def)
  note running = pause_keeps_elapsed [of "app (pauseTask calm world_running)" world_running calm]
  note paused = pause_keeps_elapsed [of "app world_idle" "pauseTask calm world_running" calm]
  note idle = pause_keeps_elapsed [of "app world_idle" world_idle calm]
  from active ok have pre: "truthy_string (currentLogId (timer (app world_running)))
      \<and> pauseWorkLog_error calm = None" by (intro conjI)
  from running have "truthy_string (currentLogId (timer (app world_running)))
      \<and> pauseWorkLog_error calm = None
      \<longrightarrow> timer (app (pauseTask calm world_running))
            = (timer (app world_running))\<lparr>isRunning := False, startTime := None\<rparr>
        \<and> work_logs (db (pauseTask calm world_running)) =
            map (\<lambda>l. if id_work l = the (currentLogId (timer (app world_running)))
                      then l\<lparr>pause_time := Some (now calm),
                             total_duration := Some (elapsedTime (timer (app world_running))),
                             status_work := Paused\<rparr>
                      else l)
                (work_logs (db world_running))" by (elim conjE)
  from this pre have frozen: "timer (app (pauseTask calm world_running))
       = (timer (app world_running))\<lparr>isRunning := False, startTime := None\<rparr>"
    by (rule mp [THEN conjunct1])
  from frozen have elapsed: "elapsedTime (timer (app (pauseTask calm world_running))) = 5"
    by (simp add: world_running_def)
  from frozen have stopped: "\<not> isRunning (timer (app (pauseTask calm world_running)))"
    by simp
  from frozen have cleared: "startTime (timer (app (pauseTask calm world_running))) = None"
    by simp
  from stopped cleared have pre2: "\<not> isRunning (timer (app (pauseTask calm world_running)))
      \<and> startTime (timer (app (pauseTask calm world_running))) = None" by (intro conjI)
  from paused have "\<not> isRunning (timer (app (pauseTask calm world_running)))
      \<and> startTime (timer (app (pauseTask calm world_running))) = None
      \<longrightarrow> timer (app (pauseTask calm (pauseTask calm world_running)))
          = timer (app (pauseTask calm world_running))" by (elim conjE)
  from this pre2 have again: "timer (app (pauseTask calm (pauseTask calm world_running)))
       = timer (app (pauseTask calm world_running))" by (rule mp)
  from running have "\<not> isRunning (timer (app (pauseTask calm world_running)))
      \<and> startTime (timer (app (pauseTask calm world_running))) = None
      \<longrightarrow> pauseTimer (app (pauseTask calm world_running)) = app (pauseTask calm world_running)"
    by (elim conjE)
  from this pre2 have store:
    "pauseTimer (app (pauseTask calm world_running)) = app (pauseTask calm world_running)"
    by (rule mp)
  have none: "\<not> truthy_string (currentLogId (timer (app world_idle)))"
    by (simp add: world_idle_def initialTimer_def)
  from idle have "\<not> truthy_string (currentLogId (timer (app world_idle)))
      \<longrightarrow> pauseTask calm world_idle = world_idle" by (elim conjE)
  from this none have untouched: "pauseTask calm world_idle = world_idle" by (rule mp)
  from active ok frozen elapsed stopped cleared again store none untouched
  show ?thesis by (intro conjI)
qed

section \<open>Finishing a task\<close>

text \<open>
  Claim C5. \<open>finishTask\<close> settles on the explicit next status when one is given;
  otherwise Cleaning gives Vacant Clean, Inspection gives Vacant Clean Inspected,
  Repair and Maintenance give Dirty, and a timer without a task type gives the
  room's current status. When the result differs from the room's status (and the
  requests succeed) the room moves to it and the audit entry names it; when it is
  the room's status, rooms and audit trail are left alone.
\<close>

theorem finishTask_next_status:
  "finalStatus room (Some explicit) tt = explicit
   \<and> finalStatus room None (Some Cleaning_task) = Vacant_Clean
   \<and> finalStatus room None (Some Inspection_task) = Vacant_Clean_Inspected
   \<and> finalStatus room None (Some Repair_task) = Dirty
   \<and> finalStatus room None (Some Maintenance_task) = Dirty
   \<and> finalStatus room None None = status room
   \<and> (truthy_string (currentLogId (timer (app w))) \<and> currentUser (app w) = Some user
       \<and> finishWorkLog_error env = None \<and> updateRoomStatus_error env = None
       \<and> createAuditLog_error env = None
       \<and> finalStatus room nextStatus (taskType (timer (app w))) \<noteq> status room
      \<longrightarrow> rooms (app (finishTask env room nextStatus w)) =
            map (\<lambda>r. if id_room r = id_room room
                      then r\<lparr>status := finalStatus room nextStatus (taskType (timer (app w))),
                             last_updated := now env\<rparr>
                      else r)
                (rooms (app w))
        \<and> audit_logs (db (finishTask env room nextStatus w)) = audit_logs (db w) @
            [\<lparr>room_number_audit = room_number room, changed_by = id_profile user,
              changer_name = Some (full_name user), changer_role = Some (role user),
              from_status = status room,
              to_status = finalStatus room nextStatus (taskType (timer (app w))),
              timestamp_audit = now env,
              notes_audit = Some (taskTypeText (taskType (timer (app w))) @ '' completed'')\<rparr>])
   \<and> (truthy_string (currentLogId (timer (app w))) \<and> currentUser (app w) = Some user
       \<and> finishWorkLog_error env = None
       \<and> finalStatus room nextStatus (taskType (timer (app w))) = status room
      \<longrightarrow> rooms (app (finishTask env room nextStatus w)) = rooms (app w)
        \<and> rooms_table (db (finishTask env room nextStatus w)) = rooms_table (db w)
        \<and> audit_logs (db (finishTask env room nextStatus w)) = audit_logs (db w))"
proof (intro conjI impI)
  assume a: "truthy_string (currentLogId (timer (app w))) \<and> currentUser (app w) = Some user
       \<and> finishWorkLog_error env = None \<and> updateRoomStatus_error env = None
       \<and> createAuditLog_error env = None
       \<and> finalStatus room nextStatus (taskType (timer (app w))) \<noteq> status room"
  then have h: "truthy_string (currentLogId (timer (app w)))" "currentUser (app w) = Some user"
    "finishWorkLog_error env = None" "updateRoomStatus_error env = None"
    "createAuditLog_error env = None"
    "finalStatus room nextStatus (taskType (timer (app w))) \<noteq> status room" by simp_all
  show "rooms (app (finishTask env room nextStatus w)) =
            map (\<lambda>r. if id_room r = id_room room
                      then r\<lparr>status := finalStatus room nextStatus (taskType (timer (app w))),
                             last_updated := now env\<rparr>
                      else r)
                (rooms (app w))"
    by (rule finishTask_changes_status(1) [OF h])
  show "audit_logs (db (finishTask env room nextStatus w)) = audit_logs (db w) @
            [\<lparr>room_number_audit = room_number room, changed_by = id_profile user,
              changer_name = Some (full_name user), changer_role = Some (role user),
              from_status = status room,
              to_status = finalStatus room nextStatus (taskType (timer (app w))),
              timestamp_audit = now env,
              notes_audit = Some (taskTypeText (taskType (timer (app w))) @ '' completed'')\<rparr>]"
    by (rule finishTask_changes_status(2) [OF h])
next
  assume a: "truthy_string (currentLogId (timer (app w))) \<and> currentUser (app w) = Some user
       \<and> finishWorkLog_error env = None
       \<and> finalStatus room nextStatus (taskType (timer (app w))) = status room"
  then have h: "truthy_string (currentLogId (timer (app w)))" "currentUser (app w) = Some user"
    "finishWorkLog_error env = None"
    "finalStatus room nextStatus (taskType (timer (app w))) = status room" by simp_all
  show "rooms (app (finishTask env room nextStatus w)) = rooms (app w)"
    by (rule finishTask_keeps_status(1) [OF h])
  show "rooms_table (db (finishTask env room nextStatus w)) = rooms_table (db w)"
    by (rule finishTask_keeps_status(3) [OF h])
  show "audit_logs (db (finishTask env room nextStatus w)) = audit_logs (db w)"
    by (rule finishTask_keeps_status(2) [OF h])
qed simp_all

text \<open>
  C5 on the running cleaning of A104: with no argument the room becomes Vacant
  Clean; with the explicit status Cleaning, its current one, nothing changes.
\<close>

theorem finishTask_next_status_witness:
  "truthy_string (currentLogId (timer (app world_running)))
   \<and> currentUser (app world_running) = Some ada
   \<and> finishWorkLog_error calm = None \<and> updateRoomStatus_error calm = None
   \<and> createAuditLog_error calm = None
   \<and> finalStatus room_A104 None (taskType (timer (app world_running))) = Vacant_Clean
   \<and> finalStatus room_A104 None (taskType (timer (app world_running))) \<noteq> status room_A104
   \<and> rooms (app (finishTask calm room_A104 None world_running)) =
        map (\<lambda>r. if id_room r = id_room room_A104
                  then r\<lparr>status := finalStatus room_A104 None (taskType (timer (app world_running))),
                         last_updated := now calm\<rparr>
                  else r)
            (rooms (app world_running))
   \<and> map status (rooms (app (finishTask calm room_A104 None world_running)))
        = [Vacant_Clean, Out_of_Order]
   \<and> finalStatus room_A104 (Some Cleaning) (taskType (timer (app world_running)))
        = status room_A104
   \<and> rooms (app (finishTask calm room_A104 (Some Cleaning) world_running))
        = rooms (app world_running)
   \<and> audit_logs (db (finishTask calm room_A104 (Some Cleaning) world_running))
        = audit_logs (db world_running)"
proof -
  have active: "truthy_string (currentLogId (timer (app world_running)))"
    by (simp add: world_running_def)
  have user: "currentUser (app world_running) = Some ada" by (simp add: world_running_def)
  have logged: "finishWorkLog_error calm = None" by (simp add: calm_def)
  have patch: "updateRoomStatus_error calm = None" by (simp add: calm_def)
  have audit: "createAuditLog_error calm = None" by (simp add: calm_def)
  have derived: "finalStatus room_A104 None (taskType (timer (app world_running))) = Vacant_Clean"
    by (simp add: world_running_def)
  have differs:
    "finalStatus room_A104 None (taskType (timer (app world_running))) \<noteq> status room_A104"
    by (simp add: world_running_def room_A104_def)
  have same: "finalStatus room_A104 (Some Cleaning) (taskType (timer (app world_running)))
        = status room_A104" by (simp add: room_A104_def)
  note result = finishTask_next_status
  from active user logged patch audit differs
  have pre1: "truthy_string (currentLogId (timer (app world_running)))
       \<and> currentUser (app world_running) = Some ada
       \<and> finishWorkLog_error calm = None \<and> updateRoomStatus_error calm = None
       \<and> createAuditLog_error calm = None
       \<and> finalStatus room_A104 None (taskType (timer (app world_running))) \<noteq> status room_A104"
    by (intro conjI)
  from result [of room_A104 Dirty None world_running ada calm None]
  have "truthy_string (currentLogId (timer (app world_running)))
       \<and> currentUser (app world_running) = Some ada
       \<and> finishWorkLog_error calm = None \<and> updateRoomStatus_error calm = None
       \<and> createAuditLog_error calm = None
       \<and> finalStatus room_A104 None (taskType (timer (app world_running))) \<noteq> status room_A104
      \<longrightarrow> rooms (app (finishTask calm room_A104 None world_running)) =
            map (\<lambda>r. if id_room r = id_room room_A104
                      then r\<lparr>status := finalStatus room_A104 None (taskType (timer (app world_running))),
                             last_updated := now calm\<rparr>
                      else r)
                (rooms (app world_running))
        \<and> audit_logs (db (finishTask calm room_A104 None world_running))
          = audit_logs (db world_running) @
            [\<lparr>room_number_audit = room_number room_A104, changed_by = id_profile ada,
              changer_name = Some (full_name ada), changer_role = Some (role ada),
              from_status = status room_A104,
              to_status = finalStatus room_A104 None (taskType (timer (app world_running))),
              timestamp_audit = now calm,
              notes_audit = Some (taskTypeText (taskType (timer (app world_running)))
                                  @ '' completed'')\<rparr>]"
    by (elim conjE)
  from this pre1 have changed:
    "rooms (app (finishTask calm room_A104 None world_running)) =
        map (\<lambda>r. if id_room r = id_room room_A104
                  then r\<lparr>status := finalStatus room_A104 None (taskType (timer (app world_running))),
                         last_updated := now calm\<rparr>
                  else r)
            (rooms (app world_running))"
    by (rule mp [THEN conjunct1])
  have statuses: "map status (rooms (app (finishTask calm room_A104 None world_running)))
        = [Vacant_Clean, Out_of_Order]" by code_simp
  from active user logged same
  have pre2: "truthy_string (currentLogId (timer (app world_running)))
       \<and> currentUser (app world_running) = Some ada
       \<and> finishWorkLog_error calm = None
       \<and> finalStatus room_A104 (Some Cleaning) (taskType (timer (app world_running)))
          = status room_A104"
    by (intro conjI)
  from result [of room_A104 Dirty None world_running ada calm "Some Cleaning"]
  have "truthy_string (currentLogId (timer (app world_running)))
       \<and> currentUser (app world_running) = Some ada
       \<and> finishWorkLog_error calm = None
       \<and> finalStatus room_A104 (Some Cleaning) (taskType (timer (app world_running)))
          = status room_A104
      \<longrightarrow> rooms (app (finishTask calm room_A104 (Some Cleaning) world_running))
            = rooms (app world_running)
        \<and> rooms_table (db (finishTask calm room_A104 (Some Cleaning) world_running))
            = rooms_table (db world_running)
        \<and> audit_logs (db (finishTask calm room_A104 (Some Cleaning) world_running))
            = audit_logs (db world_running)"
    by (elim conjE)
  from this pre2 have kept:
    "rooms (app (finishTask calm room_A104 (Some Cleaning) world_running))
            = rooms (app world_running)
        \<and> rooms_table (db (finishTask calm room_A104 (Some Cleaning) world_running))
            = rooms_table (db world_running)
        \<and> audit_logs (db (finishTask calm room_A104 (Some Cleaning) world_running))
            = audit_logs (db world_running)"
    by (rule mp)
  from kept have kept1: "rooms (app (finishTask calm room_A104 (Some Cleaning) world_running))
            = rooms (app world_running)" by (elim conjE)
  from kept have kept2:
    "audit_logs (db (finishTask calm room_A104 (Some Cleaning) world_running))
            = audit_logs (db world_running)" by (elim conjE)
  from active user logged patch audit derived differs changed statuses same kept1 kept2
  show ?thesis by (intro conjI)
qed

text \<open>
  Claim C7 says that a second \<open>finishTask\<close> in a row fails with NoActiveTask and has
  no effect. The guard of \<open>finishTask\<close> reads the timer its function object
  captured, so a second call through the same function object (no render in
  between) passes the guard again: on the running cleaning of A104 the audit trail
  then holds the entry Cleaning \<open>\<rightarrow>\<close> Vacant Clean twice. A second call through the
  function object of the next render is stopped by the guard, and reports no
  failure: the notifications are the two successes of the first call.
\<close>

theorem finishTask_again_through_same_closure:
  "truthy_string (currentLogId (timer (app world_running)))
   \<and> map (\<lambda>l. (from_status l, to_status l))
         (audit_logs (db (finishTask_closure (timer (app world_running))
            (currentUser (app world_running)) calm room_A104 None world_running)))
       = [(Cleaning, Vacant_Clean)]
   \<and> map (\<lambda>l. (from_status l, to_status l))
         (audit_logs (db (finishTask_closure (timer (app world_running))
            (currentUser (app world_running)) calm room_A104 None
            (finishTask_closure (timer (app world_running))
               (currentUser (app world_running)) calm room_A104 None world_running))))
       = [(Cleaning, Vacant_Clean), (Cleaning, Vacant_Clean)]
   \<and> map type_notification
         (notifications (app (finishTask calm room_A104 None
            (finishTask calm room_A104 None world_running))))
       = [success, success]"
proof -
  have "truthy_string (currentLogId (timer (app world_running)))"
    by (simp add: world_running_def)
  moreover have "map (\<lambda>l. (from_status l, to_status l))
         (audit_logs (db (finishTask_closure (timer (app world_running))
            (currentUser (app world_running)) calm room_A104 None world_running)))
       = [(Cleaning, Vacant_Clean)]" by code_simp
  moreover have "map (\<lambda>l. (from_status l, to_status l))
         (audit_logs (db (finishTask_closure (timer (app world_running))
            (currentUser (app world_running)) calm room_A104 None
            (finishTask_closure (timer (app world_running))
               (currentUser (app world_running)) calm room_A104 None world_running))))
       = [(Cleaning, Vacant_Clean), (Cleaning, Vacant_Clean)]" by code_simp
  moreover have "map type_notification
         (notifications (app (finishTask calm room_A104 None
            (finishTask calm room_A104 None world_running))))
       = [success, success]" by code_simp
  ultimately show ?thesis by (intro conjI)
qed

text \<open>
  Claim C7, amended. After a \<open>finishTask\<close> whose work-log request did not fail, no
  task is active (the store's timer has no log id), so a second \<open>finishTask\<close>
  made through the function object of the next render, with whatever arguments,
  is stopped by the guard on the active task and returns at once without
  signalling anything: the state after it is the state before it, hence no audit
  entry, no status change, and no notification either.
\<close>

theorem finishTask_twice:
  assumes "currentUser (app w) = Some user" and "finishWorkLog_error env1 = None"
  shows "\<not> truthy_string (currentLogId (timer (app (finishTask env1 room1 next1 w))))
    \<and> finishTask env2 room2 next2 (finishTask env1 room1 next1 w)
        = finishTask env1 room1 next1 w
    \<and> audit_logs (db (finishTask env2 room2 next2 (finishTask env1 room1 next1 w)))
        = audit_logs (db (finishTask env1 room1 next1 w))
    \<and> rooms (app (finishTask env2 room2 next2 (finishTask env1 room1 next1 w)))
        = rooms (app (finishTask env1 room1 next1 w))
    \<and> rooms_table (db (finishTask env2 room2 next2 (finishTask env1 room1 next1 w)))
        = rooms_table (db (finishTask env1 room1 next1 w))
    \<and> notifications (app (finishTask env2 room2 next2 (finishTask env1 room1 next1 w)))
        = notifications (app (finishTask env1 room1 next1 w))"
proof -
  have idle: "\<not> truthy_string (currentLogId (timer (app (finishTask env1 room1 next1 w))))"
  proof (cases "truthy_string (currentLogId (timer (app w)))")
    case True
    from finishTask_timer_reset [OF True assms] show ?thesis
      by (simp add: initialTimer_no_log)
  next
    case False
    then have "finishTask env1 room1 next1 w = w" by (simp add: finishTask_guard)
    with False show ?thesis by simp
  qed
  then have same: "finishTask env2 room2 next2 (finishTask env1 room1 next1 w)
      = finishTask env1 room1 next1 w" by (simp add: finishTask_guard)
  from idle same show ?thesis by simp
qed

text \<open>
  C7 amended, on the running cleaning of A104: the first call records Cleaning
  \<open>\<rightarrow>\<close> Vacant Clean, the second, made after the render, changes nothing.
\<close>

theorem finishTask_twice_witness:
  "currentUser (app world_running) = Some ada
   \<and> finishWorkLog_error calm = None
   \<and> truthy_string (currentLogId (timer (app world_running)))
   \<and> map (\<lambda>l. (from_status l, to_status l))
         (audit_logs (db (finishTask calm room_A104 None world_running)))
       = [(Cleaning, Vacant_Clean)]
   \<and> \<not> truthy_string (currentLogId (timer (app (finishTask calm room_A104 None world_running))))
   \<and> finishTask calm room_A104 None (finishTask calm room_A104 None world_running)
       = finishTask calm room_A104 None world_running
   \<and> audit_logs (db (finishTask calm room_A104 None (finishTask calm room_A104 None world_running)))
       = audit_logs (db (finishTask calm room_A104 None world_running))"
proof -
  have user: "currentUser (app world_running) = Some ada" by (simp add: world_running_def)
  have logged: "finishWorkLog_error calm = None" by (simp add: calm_def)
  have active: "truthy_string (currentLogId (timer (app world_running)))"
    by (simp add: world_running_def)
  have first: "map (\<lambda>l. (from_status l, to_status l))
         (audit_logs (db (finishTask calm room_A104 None world_running)))
       = [(Cleaning, Vacant_Clean)]" by code_simp
  note twice = finishTask_twice [OF user logged, of room_A104 None calm room_A104 None]
  from twice have idle:
    "\<not> truthy_string (currentLogId (timer (app (finishTask calm room_A104 None world_running))))"
    by (elim conjE)
  from twice have same:
    "finishTask calm room_A104 None (finishTask calm room_A104 None world_running)
       = finishTask calm room_A104 None world_running" by (elim conjE)
  from twice have trail:
    "audit_logs (db (finishTask calm room_A104 None (finishTask calm room_A104 None world_running)))
       = audit_logs (db (finishTask calm room_A104 None world_running))" by (elim conjE)
  from user logged active first idle same trail show ?thesis by (intro conjI)
qed

text \<open>
  Claim C9 says that a successful \<open>finishTask\<close> resets the timer and clears the
  room's \<open>assigned_to\<close>. The timer is reset; \<open>assigned_to\<close> is not touched: room
  A104, assigned to ``1'', is still assigned to ``1'' in the store and in the
  remote table after its cleaning is finished.
\<close>

theorem finishTask_leaves_assigned_to:
  "truthy_string (currentLogId (timer (app world_running)))
   \<and> roomNumber (timer (app world_running)) = Some (room_number room_A104)
   \<and> assigned_to room_A104 = Some ''1''
   \<and> map assigned_to (rooms (app world_running)) = [Some ''1'', None]
   \<and> timer (app (finishTask calm room_A104 None world_running)) = initialTimer
   \<and> map status (rooms (app (finishTask calm room_A104 None world_running)))
       = [Vacant_Clean, Out_of_Order]
   \<and> map type_notification (notifications (app (finishTask calm room_A104 None world_running)))
       = [success, success]
   \<and> map assigned_to (rooms (app (finishTask calm room_A104 None world_running)))
       = [Some ''1'', None]
   \<and> map assigned_to (rooms_table (db (finishTask calm room_A104 None world_running)))
       = [Some ''1'', None]"
proof -
  have "truthy_string (currentLogId (timer (app world_running)))"
    by (simp add: world_running_def)
  moreover have "roomNumber (timer (app world_running)) = Some (room_number room_A104)"
    by (simp add: world_running_def room_A104_def)
  moreover have "assigned_to room_A104 = Some ''1''" by (simp add: room_A104_def)
  moreover have "map assigned_to (rooms (app world_running)) = [Some ''1'', None]"
    by code_simp
  moreover have "timer (app (finishTask calm room_A104 None world_running)) = initialTimer"
    by code_simp
  moreover have "map status (rooms (app (finishTask calm room_A104 None world_running)))
       = [Vacant_Clean, Out_of_Order]" by code_simp
  moreover have
    "map type_notification (notifications (app (finishTask calm room_A104 None world_running)))
       = [success, success]" by code_simp
  moreover have "map assigned_to (rooms (app (finishTask calm room_A104 None world_running)))
       = [Some ''1'', None]" by code_simp
  moreover have
    "map assigned_to (rooms_table (db (finishTask calm room_A104 None world_running)))
       = [Some ''1'', None]" by code_simp
  ultimately show ?thesis by (intro conjI)
qed

text \<open>
  Claim C9, amended. A \<open>finishTask\<close> that passes its guard and whose work-log
  request succeeds resets the timer to its initial (idle) value and leaves the
  \<open>assigned_to\<close> of every room, in the store and in the remote table, as it was.
\<close>

theorem finishTask_resets_timer:
  assumes "truthy_string (currentLogId (timer (app w)))" and "currentUser (app w) = Some user"
    and "finishWorkLog_error env = None"
  shows "timer (app (finishTask env room nextStatus w)) = initialTimer
    \<and> map assigned_to (rooms (app (finishTask env room nextStatus w)))
        = map assigned_to (rooms (app w))
    \<and> map assigned_to (rooms_table (db (finishTask env room nextStatus w)))
        = map assigned_to (rooms_table (db w))"
  by (intro conjI finishTask_timer_reset [OF assms] finishTask_assigned_to [OF assms])

text \<open>
  C9 amended, on the running cleaning of A104.
\<close>

theorem finishTask_resets_timer_witness:
  "truthy_string (currentLogId (timer (app world_running)))
   \<and> currentUser (app world_running) = Some ada
   \<and> finishWorkLog_error calm = None
   \<and> timer (app (finishTask calm room_A104 None world_running)) = initialTimer
   \<and> map assigned_to (rooms (app (finishTask calm room_A104 None world_running)))
       = map assigned_to (rooms (app world_running))"
proof -
  have active: "truthy_string (currentLogId (timer (app world_running)))"
    by (simp add: world_running_def)
  have user: "currentUser (app world_running) = Some ada" by (simp add: world_running_def)
  have logged: "finishWorkLog_error calm = None" by (simp add: calm_def)
  note result = finishTask_resets_timer [OF active user logged, of room_A104 None]
  from result have reset: "timer (app (finishTask calm room_A104 None world_running)) = initialTimer"
    by (elim conjE)
  from result have kept:
    "map assigned_to (rooms (app (finishTask calm room_A104 None world_running)))
       = map assigned_to (rooms (app world_running))" by (elim conjE)
  from active user logged reset kept show ?thesis by (intro conjI)
qed

section \<open>The transition table\<close>

text \<open>
  Claim C4 says that looking up an unknown status yields the empty set. The lookup
  is a property read on an object literal: ``constructor'' is not the name of a
  status, and reading it yields the member inherited from \<open>Object.prototype\<close>,
  which \<open>||\<close> keeps.
\<close>

theorem availableStatuses_inherited_key:
  "''constructor'' \<notin> range statusName
   \<and> availableStatuses ''constructor'' = JS_inherited ''constructor''
   \<and> availableStatuses ''constructor'' \<noteq> JS_array []"
proof -
  have read: "availableStatuses ''constructor'' = JS_inherited ''constructor''"
    by (simp add: availableStatuses_def statusWorkflow_read_def statusWorkflow_def
        objectPrototypeKeys_def)
  then have "availableStatuses ''constructor'' \<noteq> JS_array []" by simp
  with constructor_unknown read show ?thesis by (intro conjI)
qed

text \<open>
  Claim C4, amended. \<open>legalNextStates\<close> is exactly the seven-row table: each status
  has the listed successors and no others, and no status is its own successor. A
  key that is neither the name of a status nor the name of a property inherited
  from \<open>Object.prototype\<close> reads as the empty array.
\<close>

theorem statusWorkflow_is_the_table:
  "legalNextStates Dirty = {Check_out_Inspected, Cleaning, Out_of_Order}
   \<and> legalNextStates Check_out_Inspected = {Cleaning, Out_of_Order}
   \<and> legalNextStates Cleaning = {Vacant_Clean, Dirty}
   \<and> legalNextStates Vacant_Clean = {Vacant_Clean_Inspected, Dirty, Occupied}
   \<and> legalNextStates Vacant_Clean_Inspected = {Occupied, Dirty}
   \<and> legalNextStates Occupied = {Dirty, Out_of_Order}
   \<and> legalNextStates Out_of_Order = {Dirty}
   \<and> s \<notin> legalNextStates s
   \<and> (key \<notin> range statusName \<and> key \<notin> set objectPrototypeKeys
        \<longrightarrow> availableStatuses key = JS_array [])"
  by (simp add: legalNextStates_rows not_self_legal availableStatuses_unknown)

text \<open>
  C4 amended, at a key outside the table, ``Under Renovation'': it is neither a
  status name nor an inherited name, and it reads as the empty array.
\<close>

theorem statusWorkflow_is_the_table_witness:
  "''Under Renovation'' \<notin> range statusName
   \<and> ''Under Renovation'' \<notin> set objectPrototypeKeys
   \<and> availableStatuses ''Under Renovation'' = JS_array []
   \<and> Occupied \<notin> legalNextStates Occupied
   \<and> legalNextStates Dirty = {Check_out_Inspected, Cleaning, Out_of_Order}"
proof -
  have "''Under Renovation'' \<noteq> statusName s" for s by (cases s) simp_all
  then have unknown: "''Under Renovation'' \<notin> range statusName" by blast
  have own: "''Under Renovation'' \<notin> set objectPrototypeKeys"
    by (simp add: objectPrototypeKeys_def)
  from unknown own have pre: "''Under Renovation'' \<notin> range statusName
      \<and> ''Under Renovation'' \<notin> set objectPrototypeKeys" by (intro conjI)
  note table = statusWorkflow_is_the_table [of Occupied "''Under Renovation''"]
  from table have "''Under Renovation'' \<notin> range statusName
      \<and> ''Under Renovation'' \<notin> set objectPrototypeKeys
      \<longrightarrow> availableStatuses ''Under Renovation'' = JS_array []" by (elim conjE)
  from this pre have empty: "availableStatuses ''Under Renovation'' = JS_array []" by (rule mp)
  from table have irreflexive: "Occupied \<notin> legalNextStates Occupied" by (elim conjE)
  from table
  have row: "legalNextStates Dirty = {Check_out_Inspected, Cleaning, Out_of_Order}"
    by (elim conjE)
  from unknown own empty irreflexive row show ?thesis by (intro conjI)
qed

section \<open>The timer\<close>



end
